theory Spec2Isabelle
  imports Complex_Main
begin

section \<open>Values of the JavaScript runtime\<close>

text \<open>
  The action is a Node.js program (\<open>src/main.ts\<close>). Parsed JSON is the untyped value that
  \<open>JSON.parse\<close> returns: null, a boolean, a number, a string, an array or an object with
  unique keys, kept in order. The program never looks at a number; it is kept as a rational.
\<close>

datatype json =
    JNull
  | JBool bool
  | JNumber rat
  | JString string
  | JArray "json list"
  | JObject "(string \<times> json) list"

text \<open>
  Whatever a \<open>throw\<close> raises. The program's catch blocks distinguish instances of \<open>Error\<close>
  (which have a name and a message) from any other thrown value, of which only the
  rendering by \<open>String(...)\<close> is ever used.
\<close>

datatype thrown =
    ErrorInstance string string
  | OtherValue string

text \<open>\<open>error instanceof Error ? error.message : String(error)\<close>\<close>

fun errorMessage_of :: "thrown \<Rightarrow> string" where
  "errorMessage_of (ErrorInstance n m) = m"
| "errorMessage_of (OtherValue s) = s"

text \<open>\<open>`${error}`\<close>: for an \<open>Error\<close> this is \<open>Error.prototype.toString\<close>.\<close>

fun String_of :: "thrown \<Rightarrow> string" where
  "String_of (ErrorInstance n m) =
     (if n = [] then m else if m = [] then n else n @ '': '' @ m)"
| "String_of (OtherValue s) = s"

text \<open>\<open>Array.prototype.join\<close> on strings.\<close>

fun join :: "string \<Rightarrow> string list \<Rightarrow> string" where
  "join sep [] = []"
| "join sep [x] = x"
| "join sep (x # y # ys) = x @ sep @ join sep (y # ys)"

text \<open>\<open>String.prototype.startsWith\<close>\<close>

definition startsWith :: "string \<Rightarrow> string \<Rightarrow> bool" where
  "startsWith s p = (take (length p) s = p)"

section \<open>The \<open>path\<close> module (POSIX)\<close>

text \<open>
  \<open>path.dirname\<close>, \<open>path.resolve\<close> and \<open>path.join\<close> of Node.js on a POSIX host, following
  the algorithms of Node's \<open>lib/path.js\<close>: paths are split at \<open>/\<close>, empty and \<open>.\<close> segments
  are dropped, and \<open>..\<close> removes the segment before it.
\<close>

fun split_on :: "char \<Rightarrow> string \<Rightarrow> string list" where
  "split_on c [] = [[]]"
| "split_on c (x # xs) =
     (if x = c then [] # split_on c xs
      else (case split_on c xs of [] \<Rightarrow> [[x]] | s # ss \<Rightarrow> (x # s) # ss))"

text \<open>
  \<open>normalizeString(path, allowAboveRoot)\<close>, on the list of segments; \<open>st\<close> is the stack of
  segments kept so far, innermost first.
\<close>

fun normalize_segs :: "bool \<Rightarrow> string list \<Rightarrow> string list \<Rightarrow> string list" where
  "normalize_segs a st [] = rev st"
| "normalize_segs a st (s # ss) =
     (if s = [] \<or> s = ''.'' then normalize_segs a st ss
      else if s = ''..'' then
        (case st of
           [] \<Rightarrow> if a then normalize_segs a [''..''] ss else normalize_segs a [] ss
         | t # ts \<Rightarrow>
             if t = ''..'' then (if a then normalize_segs a (''..'' # st) ss
                                 else normalize_segs a st ss)
             else normalize_segs a ts ss)
      else normalize_segs a (s # st) ss)"

definition normalizeString :: "string \<Rightarrow> bool \<Rightarrow> string" where
  "normalizeString p allowAboveRoot =
     join ''/'' (normalize_segs allowAboveRoot [] (split_on (CHR ''/'') p))"

definition isAbsolute :: "string \<Rightarrow> bool" where
  "isAbsolute p = (take 1 p = ''/'')"

text \<open>
  The loop of \<open>path.resolve\<close>: the arguments are visited from the right, the last one being
  the working directory, until an absolute one has been prepended.
\<close>

fun resolve_args :: "string list \<Rightarrow> string \<Rightarrow> bool \<times> string" where
  "resolve_args [] acc = (False, acc)"
| "resolve_args (p # ps) acc =
     (if p = [] then resolve_args ps acc
      else if isAbsolute p then (True, p @ ''/'' @ acc)
      else resolve_args ps (p @ ''/'' @ acc))"

definition path_resolve :: "string \<Rightarrow> string list \<Rightarrow> string" where
  "path_resolve wd args =
     (case resolve_args (rev (wd # args)) [] of
        (resolvedAbsolute, resolvedPath) \<Rightarrow>
          (let n = normalizeString resolvedPath (\<not> resolvedAbsolute)
           in if resolvedAbsolute then CHR ''/'' # n
              else if n = [] then ''.'' else n))"

text \<open>
  \<open>path.dirname\<close>: the scan from the right for the last \<open>/\<close> that follows a character other
  than \<open>/\<close>, never looking at index 0.
\<close>

definition path_dirname :: "string \<Rightarrow> string" where
  "path_dirname p =
     (if p = [] then ''.''
      else
        (let hasRoot = isAbsolute p;
             r = dropWhile (\<lambda>c. c \<noteq> CHR ''/'')
                   (dropWhile (\<lambda>c. c = CHR ''/'') (rev (tl p)))
         in if r = [] then (if hasRoot then ''/'' else ''.'')
            else if hasRoot \<and> tl r = [] then ''//''
            else hd p # rev (tl r)))"

definition path_normalize :: "string \<Rightarrow> string" where
  "path_normalize p =
     (if p = [] then ''.''
      else
        (let isAbs = isAbsolute p;
             trailingSeparator = (last p = CHR ''/'');
             n = normalizeString p (\<not> isAbs)
         in if n = [] then (if isAbs then ''/'' else if trailingSeparator then ''./'' else ''.'')
            else (if isAbs then ''/'' else []) @ n @ (if trailingSeparator then ''/'' else [])))"

definition path_join :: "string list \<Rightarrow> string" where
  "path_join args =
     (let joined = join ''/'' (filter (\<lambda>a. a \<noteq> []) args)
      in if joined = [] then ''.'' else path_normalize joined)"

section \<open>The world the action runs in\<close>

text \<open>
  What a path of the file system holds: a regular file with its bytes, a directory, or a
  file the process may not read.
\<close>

datatype node =
    File string
  | Directory
  | NoAccess

text \<open>Why a path names nothing.\<close>

datatype errno = ENOENT | ENOTDIR

text \<open>One entry of \<open>validate.errors\<close> (Ajv's \<open>ErrorObject\<close>; \<open>message\<close> is optional).\<close>

record ErrorObject =
  instancePath :: string
  message :: "string option"

text \<open>
  A compiled validator: called on parsed data it returns a boolean and leaves
  \<open>validate.errors\<close> (null or an array) behind; like any call it may throw.
\<close>

type_synonym ValidateFunction = "json \<Rightarrow> thrown + bool \<times> ErrorObject list option"

text \<open>An \<open>Ajv\<close> instance: its \<open>allErrors\<close> option, and whether \<open>addFormats\<close> was applied.\<close>

record Ajv =
  allErrors :: bool
  formats :: bool

definition new_Ajv :: "bool \<Rightarrow> Ajv" where
  "new_Ajv allErrs = \<lparr>allErrors = allErrs, formats = False\<rparr>"

definition addFormats :: "Ajv \<Rightarrow> Ajv" where
  "addFormats ajv = ajv\<lparr>formats := True\<rparr>"

record fg_options =
  fg_cwd :: string
  fg_absolute :: bool
  fg_ignore :: "string list"

text \<open>
  Everything outside \<open>main.ts\<close>: the working directory, the action's inputs
  (\<open>core.getInput\<close>), the file system, and the libraries the program calls and does not
  define: \<open>fast-glob\<close>, \<open>JSON.parse\<close> and \<open>ajv.compile\<close>.
\<close>

record world =
  cwd :: string
  inputs :: "(string \<times> string) list"
  fs :: "string \<Rightarrow> node option"
  fg :: "string \<Rightarrow> fg_options \<Rightarrow> thrown + string list"
  JSON_parse :: "string \<Rightarrow> thrown + json"
  ajv_compile :: "Ajv \<Rightarrow> json \<Rightarrow> thrown + ValidateFunction"

text \<open>
  \<open>core.getInput(name)\<close>: the value of the input as the toolkit hands it over, the empty
  string when the input is not set.
\<close>

definition getInput :: "world \<Rightarrow> string \<Rightarrow> string" where
  "getInput w name = (case map_of (inputs w) name of None \<Rightarrow> [] | Some v \<Rightarrow> v)"

section \<open>Effects\<close>

text \<open>
  The lines the action logs, with their parameters. Where the program prints a path
  relative to the working directory, the message carries the path itself.
\<close>

datatype message =
    Scanning string
  | NoFilesFound string
  | FoundFiles nat
  | UsingGlobalSchema string
  | UsingFileSchema string string
  | ResultsHeader
  | ValidCount nat
  | InvalidCount nat
  | InvalidEntry string "string option"
  | AllValid
  | FoundInvalid nat
  | ActionFailed string

text \<open>
  What the program does to the outside, in order: file-system calls, calls of the glob
  engine and of the schema compiler, log lines, outputs and \<open>core.setFailed\<close>.
\<close>

datatype event =
    ReadFileSync string
  | ExistsSync string
  | FastGlob string fg_options
  | AjvCompile Ajv json
  | Info message
  | Warning message
  | ErrorLog message
  | SetOutput string nat
  | SetFailed message

text \<open>
  A computation either returns a value or throws, and in both cases has performed the
  events of its trace.
\<close>

type_synonym 'a io = "(thrown + 'a) \<times> event list"

definition io_return :: "'a \<Rightarrow> 'a io" where
  "io_return v = (Inr v, [])"

definition io_throw :: "thrown \<Rightarrow> 'a io" where
  "io_throw e = (Inl e, [])"

definition io_of :: "thrown + 'a \<Rightarrow> 'a io" where
  "io_of r = (r, [])"

definition io_emit :: "event \<Rightarrow> unit io" where
  "io_emit ev = (Inr (), [ev])"

text \<open>Sequencing: a throw skips the rest; the events already performed stay.\<close>

definition io_bind :: "'a io \<Rightarrow> ('a \<Rightarrow> 'b io) \<Rightarrow> 'b io" where
  "io_bind m f =
     (case m of
        (Inl e, tr) \<Rightarrow> (Inl e, tr)
      | (Inr v, tr) \<Rightarrow> (case f v of (r, tr') \<Rightarrow> (r, tr @ tr')))"

text \<open>\<open>try { m } catch (error) { h error }\<close>\<close>

definition io_catch :: "'a io \<Rightarrow> (thrown \<Rightarrow> 'a io) \<Rightarrow> 'a io" where
  "io_catch m h =
     (case m of
        (Inl e, tr) \<Rightarrow> (case h e of (r, tr') \<Rightarrow> (r, tr @ tr'))
      | (Inr v, tr) \<Rightarrow> (Inr v, tr))"

subsection \<open>The file system\<close>

definition quoted :: "string \<Rightarrow> string" where
  "quoted p = [CHR 0x27] @ p @ [CHR 0x27]"

text \<open>
  The file system is keyed by absolute, normalised paths, the root being a directory. A
  path given to an \<open>fs\<close> call is taken from the working directory when it is relative and
  then followed component by component, as the system does: every component is looked up
  in what the components before it name, which has to be a directory, also for an empty
  component (a doubled or trailing \<open>/\<close>), for \<open>.\<close> and for \<open>..\<close>. The empty path names
  nothing.
\<close>

definition node_at :: "(string \<Rightarrow> node option) \<Rightarrow> string list \<Rightarrow> node option" where
  "node_at f st = (if st = [] then Some Directory else f (''/'' @ join ''/'' (rev st)))"

fun walk :: "(string \<Rightarrow> node option) \<Rightarrow> string list \<Rightarrow> string list \<Rightarrow> errno + node" where
  "walk f st [] = (case node_at f st of None \<Rightarrow> Inl ENOENT | Some n \<Rightarrow> Inr n)"
| "walk f st (c # cs) =
     (case node_at f st of
        None \<Rightarrow> Inl ENOENT
      | Some Directory \<Rightarrow>
          if c = [] \<or> c = ''.'' then walk f st cs
          else if c = ''..'' then walk f (tl st) cs
          else (case node_at f (c # st) of
                  None \<Rightarrow> Inl ENOENT
                | Some n \<Rightarrow> walk f (c # st) cs)
      | Some n \<Rightarrow> Inl ENOTDIR)"

definition fs_lookup :: "world \<Rightarrow> string \<Rightarrow> errno + node" where
  "fs_lookup w p =
     (if p = [] then Inl ENOENT
      else walk (fs w) [] (split_on (CHR ''/'') (if isAbsolute p then p else cwd w @ ''/'' @ p)))"

definition fs_node :: "world \<Rightarrow> string \<Rightarrow> node option" where
  "fs_node w p = (case fs_lookup w p of Inl e \<Rightarrow> None | Inr n \<Rightarrow> Some n)"

text \<open>
  Reading with the encoding \<open>utf-8\<close> decodes the bytes and never fails on them: every
  byte that cannot begin or continue a well-formed sequence is replaced by U+FFFD, and the
  byte that broke a sequence is looked at again as a first byte. Texts are kept in UTF-8
  here, so a well-formed sequence is passed on as it is and U+FFFD is three bytes.
  \<open>utf8_decode needed lo hi seen bs\<close> still needs \<open>needed\<close> continuation bytes, the next one
  between \<open>lo\<close> and \<open>hi\<close>, for the sequence begun by \<open>seen\<close>.
\<close>

definition replacement :: string where
  "replacement = [CHR 0xEF, CHR 0xBF, CHR 0xBD]"

fun utf8_decode :: "nat \<Rightarrow> nat \<Rightarrow> nat \<Rightarrow> string \<Rightarrow> string \<Rightarrow> string" where
  "utf8_decode needed lo hi seen [] = (if needed = 0 then [] else replacement)"
| "utf8_decode needed lo hi seen (b # bs) =
     (let n = (of_char b :: nat)
      in if needed = 0 then
           (if n < 0x80 then b # utf8_decode 0 0x80 0xBF [] bs
            else if 0xC2 \<le> n \<and> n \<le> 0xDF then utf8_decode 1 0x80 0xBF [b] bs
            else if n = 0xE0 then utf8_decode 2 0xA0 0xBF [b] bs
            else if n = 0xED then utf8_decode 2 0x80 0x9F [b] bs
            else if 0xE1 \<le> n \<and> n \<le> 0xEF then utf8_decode 2 0x80 0xBF [b] bs
            else if n = 0xF0 then utf8_decode 3 0x90 0xBF [b] bs
            else if n = 0xF4 then utf8_decode 3 0x80 0x8F [b] bs
            else if 0xF1 \<le> n \<and> n \<le> 0xF3 then utf8_decode 3 0x80 0xBF [b] bs
            else replacement @ utf8_decode 0 0x80 0xBF [] bs)
         else if lo \<le> n \<and> n \<le> hi then
           (if needed = 1 then seen @ [b] @ utf8_decode 0 0x80 0xBF [] bs
            else utf8_decode (needed - 1) 0x80 0xBF (seen @ [b]) bs)
         else replacement @ utf8_decode 0 0x80 0xBF [] (b # bs))"

text \<open>\<open>buffer.toString('utf-8')\<close>\<close>

definition toString_utf8 :: "string \<Rightarrow> string" where
  "toString_utf8 bytes = utf8_decode 0 0x80 0xBF [] bytes"

definition fs_read :: "world \<Rightarrow> string \<Rightarrow> thrown + string" where
  "fs_read w p =
     (case fs_lookup w p of
        Inl ENOENT \<Rightarrow> Inl (ErrorInstance ''Error''
                  (''ENOENT: no such file or directory, open '' @ quoted p))
      | Inl ENOTDIR \<Rightarrow> Inl (ErrorInstance ''Error''
                  (''ENOTDIR: not a directory, open '' @ quoted p))
      | Inr (File bytes) \<Rightarrow> Inr (toString_utf8 bytes)
      | Inr Directory \<Rightarrow> Inl (ErrorInstance ''Error''
                  ''EISDIR: illegal operation on a directory, read'')
      | Inr NoAccess \<Rightarrow> Inl (ErrorInstance ''Error''
                  (''EACCES: permission denied, open '' @ quoted p)))"

text \<open>\<open>fs.readFileSync(p, 'utf-8')\<close>\<close>

definition readFileSync :: "world \<Rightarrow> string \<Rightarrow> string io" where
  "readFileSync w p = (fs_read w p, [ReadFileSync p])"

text \<open>\<open>fs.existsSync(p)\<close>\<close>

definition existsSync :: "world \<Rightarrow> string \<Rightarrow> bool io" where
  "existsSync w p = (Inr (fs_node w p \<noteq> None), [ExistsSync p])"

text \<open>\<open>ajv.compile(schema)\<close>\<close>

definition compile :: "world \<Rightarrow> Ajv \<Rightarrow> json \<Rightarrow> ValidateFunction io" where
  "compile w ajv schema = (ajv_compile w ajv schema, [AjvCompile ajv schema])"

section \<open>The functions of \<open>main.ts\<close>\<close>

record ValidationResult =
  valid :: bool
  "file" :: string
  error :: "string option"

definition default_ignore :: "string list" where
  "default_ignore = [''**/node_modules/**'', ''**/dist/**'', ''**/lib/**'', ''**/.git/**'']"

definition findJsonFiles :: "world \<Rightarrow> string \<Rightarrow> string list io" where
  "findJsonFiles w folder =
     (let searchPath = path_join [cwd w, folder];
          opts = \<lparr>fg_cwd = searchPath, fg_absolute = True, fg_ignore = default_ignore\<rparr>
      in (fg w ''**/*.json'' opts, [FastGlob ''**/*.json'' opts]))"

text \<open>
  \<open>data && typeof data === 'object' && '$schema' in data && typeof data.$schema === 'string'\<close>
  holds of an object with a string under the key, and of nothing else: an array has no such
  key, and the other values are not of type \<open>object\<close> or are \<open>null\<close>.
\<close>

definition extractSchemaFromJson :: "world \<Rightarrow> string \<Rightarrow> string \<Rightarrow> string option" where
  "extractSchemaFromJson w content filePath =
     (case JSON_parse w content of
        Inl e \<Rightarrow> None
      | Inr data \<Rightarrow>
          (case data of
             JObject kvs \<Rightarrow>
               (case map_of kvs ''$schema'' of
                  Some (JString schemaRef) \<Rightarrow>
                    if startsWith schemaRef ''http://'' \<or> startsWith schemaRef ''https://''
                    then None
                    else (let dir = path_dirname filePath
                          in Some (path_resolve (cwd w) [dir, schemaRef]))
                | _ \<Rightarrow> None)
           | _ \<Rightarrow> None))"

definition validateJsonSyntax :: "world \<Rightarrow> string \<Rightarrow> ValidationResult io" where
  "validateJsonSyntax w filePath =
     io_catch
       (io_bind (readFileSync w filePath) (\<lambda>content.
        io_bind (io_of (JSON_parse w content)) (\<lambda>data.
        io_return \<lparr>valid = True, file = filePath, error = None\<rparr>)))
       (\<lambda>err.
          (let errorMessage = errorMessage_of err
           in io_return \<lparr>valid = False, file = filePath, error = Some errorMessage\<rparr>))"

definition loadSchema :: "world \<Rightarrow> string \<Rightarrow> json io" where
  "loadSchema w schemaPath =
     io_catch
       (io_bind (readFileSync w schemaPath) (\<lambda>schemaContent.
        io_of (JSON_parse w schemaContent)))
       (\<lambda>err. io_throw (ErrorInstance ''Error''
                 (''Failed to load schema from '' @ schemaPath @ '': '' @ String_of err)))"

text \<open>A template literal renders a missing \<open>message\<close> as \<open>undefined\<close>.\<close>

definition template_of :: "string option \<Rightarrow> string" where
  "template_of m = (case m of None \<Rightarrow> ''undefined'' | Some s \<Rightarrow> s)"

definition format_error :: "ErrorObject \<Rightarrow> string" where
  "format_error err = instancePath err @ '' '' @ template_of (message err)"

text \<open>
  \<open>validate.errors?.map(...).join(', ') || 'Unknown validation error'\<close>: the fallback is
  taken when there is no array and when the joined string is empty.
\<close>

definition errors_text :: "ErrorObject list option \<Rightarrow> string" where
  "errors_text errs =
     (case errs of
        None \<Rightarrow> ''Unknown validation error''
      | Some es \<Rightarrow>
          (let joined = join '', '' (map format_error es)
           in if joined = [] then ''Unknown validation error'' else joined))"

definition validateJsonSchema :: "world \<Rightarrow> string \<Rightarrow> ValidateFunction \<Rightarrow> ValidationResult io" where
  "validateJsonSchema w filePath validate =
     io_catch
       (io_bind (readFileSync w filePath) (\<lambda>content.
        io_bind (io_of (JSON_parse w content)) (\<lambda>data.
        io_bind (io_of (validate data)) (\<lambda>(isValid, errs).
          if \<not> isValid
          then io_return \<lparr>valid = False, file = filePath, error = Some (errors_text errs)\<rparr>
          else io_return \<lparr>valid = True, file = filePath, error = None\<rparr>))))
       (\<lambda>err.
          (let errorMessage = errorMessage_of err
           in io_return \<lparr>valid = False, file = filePath, error = Some errorMessage\<rparr>))"

subsection \<open>The main function\<close>

text \<open>
  Lines 145 to 161 of \<open>run\<close>: the validator a document is checked with. \<open>fileValidate\<close>
  starts as \<open>globalValidate\<close>; only when that is null is the document read and its
  \<open>$schema\<close> looked at, and whatever is thrown on that way is dropped, which leaves
  \<open>fileValidate\<close> null.
\<close>

definition run_fileValidate ::
  "world \<Rightarrow> ValidateFunction option \<Rightarrow> string \<Rightarrow> ValidateFunction option io" where
  "run_fileValidate w globalValidate f =
     (case globalValidate of
        Some v \<Rightarrow> io_return (Some v)
      | None \<Rightarrow>
          io_catch
            (io_bind (readFileSync w f) (\<lambda>content.
               (case extractSchemaFromJson w content f of
                  None \<Rightarrow> io_return None
                | Some fileSchemaPath \<Rightarrow>
                    if fileSchemaPath = [] then io_return None
                    else
                      io_bind (existsSync w fileSchemaPath) (\<lambda>ex.
                        if ex then
                          io_bind (io_emit (Info (UsingFileSchema f fileSchemaPath))) (\<lambda>_.
                          io_bind (loadSchema w fileSchemaPath) (\<lambda>schema.
                          (let ajv = addFormats (new_Ajv True)
                           in io_bind (compile w ajv schema) (\<lambda>v.
                              io_return (Some v)))))
                        else io_return None))))
            (\<lambda>err. io_return None))"

text \<open>The body of the loop over the discovered files: one result per file.\<close>

definition run_file :: "world \<Rightarrow> ValidateFunction option \<Rightarrow> string \<Rightarrow> ValidationResult io" where
  "run_file w globalValidate f =
     io_bind (run_fileValidate w globalValidate f) (\<lambda>fileValidate.
       (case fileValidate of
          Some v \<Rightarrow> validateJsonSchema w f v
        | None \<Rightarrow> validateJsonSyntax w f))"

fun run_loop :: "world \<Rightarrow> ValidateFunction option \<Rightarrow> string list \<Rightarrow> ValidationResult list io" where
  "run_loop w globalValidate [] = io_return []"
| "run_loop w globalValidate (f # rest) =
     io_bind (run_file w globalValidate f) (\<lambda>r.
     io_bind (run_loop w globalValidate rest) (\<lambda>rs.
     io_return (r # rs)))"

text \<open>Lines 130 to 137: the global validator, compiled before any file is looked at.\<close>

definition run_globalValidate :: "world \<Rightarrow> string \<Rightarrow> ValidateFunction option io" where
  "run_globalValidate w schemaPath =
     (if schemaPath \<noteq> [] then
        io_bind (io_emit (Info (UsingGlobalSchema schemaPath))) (\<lambda>_.
        io_bind (loadSchema w schemaPath) (\<lambda>schema.
        (let ajv = addFormats (new_Ajv True)
         in io_bind (compile w ajv schema) (\<lambda>v.
            io_return (Some v)))))
      else io_return None)"

text \<open>Lines 172 to 198: the counts, the log of the invalid files, the outputs, the verdict.\<close>

definition run_report :: "ValidationResult list \<Rightarrow> unit io" where
  "run_report results =
     (let validFiles = filter (\<lambda>r. valid r) results;
          invalidFiles = filter (\<lambda>r. \<not> valid r) results
      in (Inr (),
          [Info ResultsHeader, Info (ValidCount (length validFiles))]
          @ (if length invalidFiles > 0
             then ErrorLog (InvalidCount (length invalidFiles))
                  # map (\<lambda>r. ErrorLog (InvalidEntry (file r) (error r))) invalidFiles
             else [])
          @ [SetOutput ''valid-files'' (length validFiles),
             SetOutput ''invalid-files'' (length invalidFiles)]
          @ (if length invalidFiles > 0
             then [SetFailed (FoundInvalid (length invalidFiles))]
             else [Info AllValid])))"

definition run :: "world \<Rightarrow> unit io" where
  "run w =
     io_catch
       (let folder = (if getInput w ''folder'' = [] then ''.'' else getInput w ''folder'');
            schemaPath = getInput w ''schema''
        in io_bind (io_emit (Info (Scanning folder))) (\<lambda>_.
           io_bind (findJsonFiles w folder) (\<lambda>jsonFiles.
             if length jsonFiles = 0 then
               (Inr (), [Warning (NoFilesFound folder),
                         SetOutput ''valid-files'' 0, SetOutput ''invalid-files'' 0])
             else
               io_bind (io_emit (Info (FoundFiles (length jsonFiles)))) (\<lambda>_.
               io_bind (run_globalValidate w schemaPath) (\<lambda>globalValidate.
               io_bind (run_loop w globalValidate jsonFiles) (\<lambda>results.
               run_report results))))))
       (\<lambda>err.
          (let errorMessage = errorMessage_of err
           in io_emit (SetFailed (ActionFailed errorMessage))))"

section \<open>What a run leaves behind\<close>

text \<open>The action has failed when \<open>core.setFailed\<close> was called.\<close>

fun is_SetFailed :: "event \<Rightarrow> bool" where
  "is_SetFailed (SetFailed m) = True"
| "is_SetFailed ev = False"

definition failed :: "'a io \<Rightarrow> bool" where
  "failed r = list_ex is_SetFailed (snd r)"

fun is_AjvCompile :: "event \<Rightarrow> bool" where
  "is_AjvCompile (AjvCompile a s) = True"
| "is_AjvCompile ev = False"

text \<open>The calls of \<open>ajv.compile\<close> made, in order.\<close>

definition compilations :: "'a io \<Rightarrow> event list" where
  "compilations r = filter is_AjvCompile (snd r)"

text \<open>The value last given to an output.\<close>

fun output_in :: "string \<Rightarrow> event list \<Rightarrow> nat option" where
  "output_in name [] = None"
| "output_in name (SetOutput k v # evs) =
     (case output_in name evs of
        Some v' \<Rightarrow> Some v'
      | None \<Rightarrow> if k = name then Some v else None)"
| "output_in name (ev # evs) = output_in name evs"

definition output_of :: "string \<Rightarrow> 'a io \<Rightarrow> nat option" where
  "output_of name r = output_in name (snd r)"

text \<open>The folder a run scans: \<open>core.getInput('folder') || '.'\<close>.\<close>

definition folder_of :: "world \<Rightarrow> string" where
  "folder_of w = (if getInput w ''folder'' = [] then ''.'' else getInput w ''folder'')"

text \<open>The schema path a document declares, if it can be read and declares one.\<close>

definition declared_schema :: "world \<Rightarrow> string \<Rightarrow> string option" where
  "declared_schema w f =
     (case fs_read w f of
        Inl e \<Rightarrow> None
      | Inr content \<Rightarrow> extractSchemaFromJson w content f)"

text \<open>A declared schema is usable when its path exists and \<open>loadSchema\<close> returns.\<close>

definition declares_loadable :: "world \<Rightarrow> string \<Rightarrow> bool" where
  "declares_loadable w f =
     (case declared_schema w f of
        None \<Rightarrow> False
      | Some p \<Rightarrow>
          (case fs_node w p of
             None \<Rightarrow> False
           | Some n \<Rightarrow> (case fst (loadSchema w p) of Inl e \<Rightarrow> False | Inr s \<Rightarrow> True)))"

fun uses_allErrors :: "event \<Rightarrow> bool" where
  "uses_allErrors (AjvCompile a s) = allErrors a"
| "uses_allErrors ev = True"

section \<open>Concrete worlds\<close>

text \<open>
  To run the model on concrete inputs the libraries need instances. These are small
  stand-ins that behave as the libraries do on the files of the worlds below: a glob
  engine over a listing of the regular files, which knows \<open>**\<close>, \<open>*\<close> and literal segments
  and hides dot files from the search pattern but not from the ignore patterns; a parser
  given by a table of texts; and a schema compiler that knows the keyword \<open>required\<close>.
\<close>

fun wild :: "string \<Rightarrow> string \<Rightarrow> bool" where
  "wild [] [] = True"
| "wild [] (c # cs) = False"
| "wild (p # ps) [] = (if p = CHR ''*'' then wild ps [] else False)"
| "wild (p # ps) (c # cs) =
     (if p = CHR ''*'' then (if wild ps (c # cs) then True else wild (p # ps) cs)
      else if p = c then wild ps cs else False)"

definition hidden :: "string \<Rightarrow> bool" where
  "hidden s = (take 1 s = ''.'')"

fun glob_segs :: "bool \<Rightarrow> string list \<Rightarrow> string list \<Rightarrow> bool" where
  "glob_segs dot [] [] = True"
| "glob_segs dot [] (s # ss) = False"
| "glob_segs dot (p # ps) [] = (if p = ''**'' then glob_segs dot ps [] else False)"
| "glob_segs dot (p # ps) (s # ss) =
     (if p = ''**'' then
        (if glob_segs dot ps (s # ss) then True
         else if hidden s \<and> \<not> dot then False
         else glob_segs dot (p # ps) ss)
      else if hidden s \<and> \<not> dot \<and> \<not> hidden p then False
      else if wild p s then glob_segs dot ps ss
      else False)"

definition glob_match :: "bool \<Rightarrow> string \<Rightarrow> string \<Rightarrow> bool" where
  "glob_match dot pat rel = glob_segs dot (split_on (CHR ''/'') pat) (split_on (CHR ''/'') rel)"

definition relative_to :: "string \<Rightarrow> string \<Rightarrow> string option" where
  "relative_to dir p =
     (let d = rev (dropWhile (\<lambda>c. c = CHR ''/'') (rev dir)) @ ''/''
      in if startsWith p d then Some (drop (length d) p) else None)"

definition listing_fg :: "string list \<Rightarrow> string \<Rightarrow> fg_options \<Rightarrow> thrown + string list" where
  "listing_fg paths pattern opts =
     Inr (filter (\<lambda>p.
            (case relative_to (fg_cwd opts) p of
               None \<Rightarrow> False
             | Some rel \<Rightarrow>
                 if glob_match False pattern rel
                 then \<not> list_ex (\<lambda>ig. glob_match True ig rel) (fg_ignore opts)
                 else False)) paths)"

definition table_parse :: "(string \<times> (thrown + json)) list \<Rightarrow> string \<Rightarrow> thrown + json" where
  "table_parse tbl t =
     (case map_of tbl t of
        Some r \<Rightarrow> r
      | None \<Rightarrow> Inl (ErrorInstance ''SyntaxError'' ''Unexpected token in JSON''))"

fun missing_required :: "(string \<times> json) list \<Rightarrow> json list \<Rightarrow> ErrorObject list" where
  "missing_required props [] = []"
| "missing_required props (JString k # ks) =
     (case map_of props k of
        None \<Rightarrow> \<lparr>instancePath = [],
                  message = Some (''must have required property '' @ quoted k)\<rparr>
                # missing_required props ks
      | Some v \<Rightarrow> missing_required props ks)"
| "missing_required props (k # ks) = missing_required props ks"

definition violations :: "(string \<times> json) list \<Rightarrow> json \<Rightarrow> ErrorObject list" where
  "violations schema d =
     (case d of
        JObject props \<Rightarrow>
          (case map_of schema ''required'' of
             Some (JArray ks) \<Rightarrow> missing_required props ks
           | _ \<Rightarrow> [])
      | _ \<Rightarrow> [])"

definition tiny_validate :: "Ajv \<Rightarrow> (string \<times> json) list \<Rightarrow> ValidateFunction" where
  "tiny_validate ajv schema d =
     (let vs = violations schema d
      in if vs = [] then Inr (True, None)
         else Inr (False, Some (if allErrors ajv then vs else take 1 vs)))"

definition tiny_compile :: "Ajv \<Rightarrow> json \<Rightarrow> thrown + ValidateFunction" where
  "tiny_compile ajv schema =
     (case schema of
        JObject kvs \<Rightarrow> Inr (tiny_validate ajv kvs)
      | _ \<Rightarrow> Inl (ErrorInstance ''Error'' ''schema must be object or boolean''))"

text \<open>
  The contents of the example files, all of them ASCII and so read as they are, and what
  \<open>JSON.parse\<close> makes of them.
\<close>

definition text_named :: string where
  \<open>text_named = ''{"$schema":"./user.schema.json","name":"a"}''\<close>

definition text_unnamed :: string where
  \<open>text_unnamed = ''{"$schema":"./user.schema.json"}''\<close>

definition text_schema :: string where
  \<open>text_schema = ''{"required":["name","email"]}''\<close>

definition text_broken :: string where
  \<open>text_broken = ''{ invalid json }''\<close>

definition text_remote :: string where
  \<open>text_remote = ''{"$schema":"http://json-schema.org/draft-07/schema#","name":"test"}''\<close>

definition text_missing :: string where
  \<open>text_missing = ''{"$schema":"./missing.schema.json"}''\<close>

definition text_null :: string where
  \<open>text_null = ''null''\<close>

definition text_plain :: string where
  \<open>text_plain = ''{"name":"a"}''\<close>

text \<open>
  Bytes that are not UTF-8, a Latin-1 \<open>e\<close> with acute accent inside a string, and the text
  they are read as.
\<close>

definition bytes_latin1 :: string where
  \<open>bytes_latin1 = ''{"name":"caf'' @ [CHR 0xE9] @ ''"}''\<close>

definition text_replaced :: string where
  \<open>text_replaced = ''{"name":"caf'' @ replacement @ ''"}''\<close>

definition example_json :: "(string \<times> (thrown + json)) list" where
  "example_json =
     [(text_named, Inr (JObject [(''$schema'', JString ''./user.schema.json''),
                                  (''name'', JString ''a'')])),
      (text_unnamed, Inr (JObject [(''$schema'', JString ''./user.schema.json'')])),
      (text_schema, Inr (JObject [(''required'', JArray [JString ''name'', JString ''email''])])),
      (text_broken, Inl (ErrorInstance ''SyntaxError''
                           ''Unexpected token i in JSON at position 2'')),
      (text_remote, Inr (JObject [(''$schema'', JString ''http://json-schema.org/draft-07/schema#''),
                                   (''name'', JString ''test'')])),
      (text_missing, Inr (JObject [(''$schema'', JString ''./missing.schema.json'')])),
      (text_null, Inr JNull),
      (text_plain, Inr (JObject [(''name'', JString ''a'')])),
      (text_replaced, Inr (JObject [(''name'', JString (''caf'' @ replacement))]))]"

fun is_regular :: "string \<times> node \<Rightarrow> bool" where
  "is_regular (p, Directory) = False"
| "is_regular (p, n) = True"

text \<open>The directories above a path, outermost first.\<close>

definition ancestors :: "string \<Rightarrow> string list" where
  "ancestors p =
     (let segs = filter (\<lambda>s. s \<noteq> []) (split_on (CHR ''/'') p)
      in map (\<lambda>k. ''/'' @ join ''/'' (take k segs)) [1..<length segs])"

definition with_directories :: "(string \<times> node) list \<Rightarrow> (string \<times> node) list" where
  "with_directories files =
     files @ map (\<lambda>p. (p, Directory)) (concat (map (\<lambda>e. ancestors (fst e)) files))"

text \<open>
  A world with working directory \<open>/w\<close>, the given inputs and the given files in the
  directories their paths go through.
\<close>

definition example_world :: "(string \<times> string) list \<Rightarrow> (string \<times> node) list \<Rightarrow> world" where
  "example_world ins files =
     \<lparr>cwd = ''/w'', inputs = ins, fs = map_of (with_directories files),
      fg = listing_fg (map fst (filter is_regular files)),
      JSON_parse = table_parse example_json, ajv_compile = tiny_compile\<rparr>"

text \<open>Two documents that declare the same schema, next to that schema.\<close>

definition world_shared :: world where
  "world_shared = example_world []
     [(''/w/a.json'', File text_named),
      (''/w/b.json'', File text_unnamed),
      (''/w/user.schema.json'', File text_schema)]"

text \<open>One document that is not JSON, in a run told not to fail on invalid files.\<close>

definition world_lenient :: world where
  "world_lenient = example_world [(''fail-on-invalid'', ''false'')]
     [(''/w/bad.json'', File text_broken)]"

text \<open>A run told to ignore \<open>build\<close> only.\<close>

definition world_ignore :: world where
  "world_ignore = example_world [(''ignore'', ''**/build/**'')]
     [(''/w/build/out.json'', File text_plain),
      (''/w/lib/data.json'', File text_plain)]"

text \<open>Documents inside and outside the folders that discovery skips.\<close>

definition world_defaults :: world where
  "world_defaults = example_world []
     [(''/w/package.json'', File text_plain),
      (''/w/node_modules/pkg/package.json'', File text_plain),
      (''/w/packages/a/dist/out.json'', File text_plain),
      (''/w/lib/data.json'', File text_plain),
      (''/w/.git/refs.json'', File text_plain),
      (''/w/library/distribution.json'', File text_plain)]"

text \<open>A global schema, and documents of which one declares a schema of its own.\<close>

definition world_global :: world where
  "world_global = example_world [(''schema'', ''schemas/s.json'')]
     [(''/w/a.json'', File text_missing),
      (''/w/b.json'', File text_plain),
      (''/w/schemas'', Directory),
      (''/w/schemas/s.json'', File text_schema)]"

text \<open>
  Documents whose declared schema is remote, is missing, is not JSON, or is not a schema.
\<close>

definition world_degraded :: world where
  "world_degraded = example_world []
     [(''/w/remote.json'', File text_remote),
      (''/w/missing/doc.json'', File text_missing),
      (''/w/broken/doc.json'', File text_named),
      (''/w/broken/user.schema.json'', File text_broken),
      (''/w/null/doc.json'', File text_named),
      (''/w/null/user.schema.json'', File text_null),
      (''/w/locked/doc.json'', File text_unnamed),
      (''/w/locked/user.schema.json'', NoAccess)]"

text \<open>One document whose bytes are not UTF-8.\<close>

definition world_latin1 :: world where
  "world_latin1 = example_world [] [(''/w/latin1.json'', File bytes_latin1)]"

text \<open>The schema of the example worlds, parsed.\<close>

definition schema_required :: "(string \<times> json) list" where
  "schema_required = [(''required'', JArray [JString ''name'', JString ''email''])]"

section \<open>Sequencing and catching\<close>

lemma io_bind_Inr: "io_bind (Inr v, tr) f = (fst (f v), tr @ snd (f v))"
  by (simp add: io_bind_def split: prod.splits)

lemma io_bind_Inl: "io_bind (Inl e, tr) f = (Inl e, tr)"
  by (simp add: io_bind_def)

lemma io_catch_Inr: "io_catch (Inr v, tr) h = (Inr v, tr)"
  by (simp add: io_catch_def)

lemma io_catch_Inl: "io_catch (Inl e, tr) h = (fst (h e), tr @ snd (h e))"
  by (simp add: io_catch_def split: prod.splits)

lemmas io_simps = io_bind_Inr io_bind_Inl io_catch_Inr io_catch_Inl io_return_def io_throw_def
  io_of_def io_emit_def readFileSync_def existsSync_def compile_def

lemma fst_io_bind: "fst (io_bind m f) = (case fst m of Inl e \<Rightarrow> Inl e | Inr v \<Rightarrow> fst (f v))"
  by (cases m; cases "fst m") (simp_all add: io_simps)

lemma snd_io_bind: "snd (io_bind m f) = (case fst m of Inl e \<Rightarrow> snd m | Inr v \<Rightarrow> snd m @ snd (f v))"
  by (cases m; cases "fst m") (simp_all add: io_simps)

lemma fst_io_catch: "fst (io_catch m h) = (case fst m of Inl e \<Rightarrow> fst (h e) | Inr v \<Rightarrow> Inr v)"
  by (cases m; cases "fst m") (simp_all add: io_simps)

lemma snd_io_catch: "snd (io_catch m h) = (case fst m of Inl e \<Rightarrow> snd m @ snd (h e) | Inr v \<Rightarrow> snd m)"
  by (cases m; cases "fst m") (simp_all add: io_simps)

section \<open>The syntax check\<close>

text \<open>
  C7, as amended. \<open>validateJsonSyntax\<close> never throws: for every world and every path it
  returns a result for that path. When the path names nothing, leads through something
  that is not a directory, names a directory or names a file that may not be read, the
  result is invalid and its error is the message of the read error, which names the
  failure and, except for a directory, the path. Bytes that are not UTF-8 are no read
  failure: the file is read as the decoded text. When that text does not parse, the
  result is invalid and its error is the message of the parser's error; when it parses,
  the result is valid and has no error.
\<close>

theorem validateJsonSyntax_result:
  "\<exists>r. fst (validateJsonSyntax w filePath) = Inr r \<and> file r = filePath \<and>
     (case fs_lookup w filePath of
        Inl ENOENT \<Rightarrow>
          \<not> valid r
          \<and> error r = Some (''ENOENT: no such file or directory, open '' @ quoted filePath)
      | Inl ENOTDIR \<Rightarrow>
          \<not> valid r
          \<and> error r = Some (''ENOTDIR: not a directory, open '' @ quoted filePath)
      | Inr Directory \<Rightarrow>
          \<not> valid r
          \<and> error r = Some ''EISDIR: illegal operation on a directory, read''
      | Inr NoAccess \<Rightarrow>
          \<not> valid r
          \<and> error r = Some (''EACCES: permission denied, open '' @ quoted filePath)
      | Inr (File bytes) \<Rightarrow>
          (case JSON_parse w (toString_utf8 bytes) of
             Inl (ErrorInstance n m) \<Rightarrow> \<not> valid r \<and> error r = Some m
           | Inl (OtherValue s) \<Rightarrow> \<not> valid r \<and> error r = Some s
           | Inr d \<Rightarrow> valid r \<and> error r = None))"
proof (cases "fs_lookup w filePath")
  case (Inl e)
  then show ?thesis
    by (cases e) (simp_all add: validateJsonSyntax_def fs_read_def io_simps)
next
  case (Inr nd)
  show ?thesis
  proof (cases nd)
    case (File bytes)
    show ?thesis
    proof (cases "JSON_parse w (toString_utf8 bytes)")
      case (Inl err)
      with Inr File show ?thesis
        by (cases err) (simp_all add: validateJsonSyntax_def fs_read_def io_simps)
    next
      case (Inr d)
      with \<open>fs_lookup w filePath = Inr nd\<close> File show ?thesis
        by (simp add: validateJsonSyntax_def fs_read_def io_simps)
    qed
  next
    case Directory
    with Inr show ?thesis
      by (simp add: validateJsonSyntax_def fs_read_def io_simps)
  next
    case NoAccess
    with Inr show ?thesis
      by (simp add: validateJsonSyntax_def fs_read_def io_simps)
  qed
qed

text \<open>A record is the three fields it has.\<close>

lemma result_eq:
  "file r = f \<Longrightarrow> valid r = v \<Longrightarrow> error r = e \<Longrightarrow> r = \<lparr>valid = v, file = f, error = e\<rparr>"
  by (cases r) simp

theorem validateJsonSyntax_result_witness:
  "fst (validateJsonSyntax world_degraded ''/w/does-not-exist.json'')
     = Inr \<lparr>valid = False, file = ''/w/does-not-exist.json'',
            error = Some (''ENOENT: no such file or directory, open ''
                          @ quoted ''/w/does-not-exist.json'')\<rparr>
   \<and> fst (validateJsonSyntax world_degraded ''/w/remote.json/'')
     = Inr \<lparr>valid = False, file = ''/w/remote.json/'',
            error = Some (''ENOTDIR: not a directory, open '' @ quoted ''/w/remote.json/'')\<rparr>
   \<and> fst (validateJsonSyntax world_degraded ''/w/missing'')
     = Inr \<lparr>valid = False, file = ''/w/missing'',
            error = Some ''EISDIR: illegal operation on a directory, read''\<rparr>
   \<and> fst (validateJsonSyntax world_degraded ''/w/locked/user.schema.json'')
     = Inr \<lparr>valid = False, file = ''/w/locked/user.schema.json'',
            error = Some (''EACCES: permission denied, open ''
                          @ quoted ''/w/locked/user.schema.json'')\<rparr>
   \<and> fst (validateJsonSyntax world_degraded ''/w/broken/user.schema.json'')
     = Inr \<lparr>valid = False, file = ''/w/broken/user.schema.json'',
            error = Some ''Unexpected token i in JSON at position 2''\<rparr>
   \<and> fst (validateJsonSyntax world_degraded ''/w/remote.json'')
     = Inr \<lparr>valid = True, file = ''/w/remote.json'', error = None\<rparr>"
proof -
  have l1: "fs_lookup world_degraded ''/w/does-not-exist.json'' = Inl ENOENT"
    by code_simp
  have l2: "fs_lookup world_degraded ''/w/remote.json/'' = Inl ENOTDIR"
    by code_simp
  have l3: "fs_lookup world_degraded ''/w/missing'' = Inr Directory"
    by code_simp
  have l4: "fs_lookup world_degraded ''/w/locked/user.schema.json'' = Inr NoAccess"
    by code_simp
  have l5: "fs_lookup world_degraded ''/w/broken/user.schema.json'' = Inr (File text_broken)"
    by code_simp
  have p5: "JSON_parse world_degraded (toString_utf8 text_broken)
              = Inl (ErrorInstance ''SyntaxError'' ''Unexpected token i in JSON at position 2'')"
    by code_simp
  have l6: "fs_lookup world_degraded ''/w/remote.json'' = Inr (File text_remote)"
    by code_simp
  have p6: "JSON_parse world_degraded (toString_utf8 text_remote)
              = Inr (JObject [(''$schema'', JString ''http://json-schema.org/draft-07/schema#''),
                              (''name'', JString ''test'')])"
    by code_simp
  have r1: "fst (validateJsonSyntax world_degraded ''/w/does-not-exist.json'')
     = Inr \<lparr>valid = False, file = ''/w/does-not-exist.json'',
            error = Some (''ENOENT: no such file or directory, open ''
                          @ quoted ''/w/does-not-exist.json'')\<rparr>"
    using validateJsonSyntax_result [of world_degraded "''/w/does-not-exist.json''"] l1
    by (auto intro: result_eq)
  have r2: "fst (validateJsonSyntax world_degraded ''/w/remote.json/'')
     = Inr \<lparr>valid = False, file = ''/w/remote.json/'',
            error = Some (''ENOTDIR: not a directory, open '' @ quoted ''/w/remote.json/'')\<rparr>"
    using validateJsonSyntax_result [of world_degraded "''/w/remote.json/''"] l2
    by (auto intro: result_eq)
  have r3: "fst (validateJsonSyntax world_degraded ''/w/missing'')
     = Inr \<lparr>valid = False, file = ''/w/missing'',
            error = Some ''EISDIR: illegal operation on a directory, read''\<rparr>"
    using validateJsonSyntax_result [of world_degraded "''/w/missing''"] l3
    by (auto intro: result_eq)
  have r4: "fst (validateJsonSyntax world_degraded ''/w/locked/user.schema.json'')
     = Inr \<lparr>valid = False, file = ''/w/locked/user.schema.json'',
            error = Some (''EACCES: permission denied, open ''
                          @ quoted ''/w/locked/user.schema.json'')\<rparr>"
    using validateJsonSyntax_result [of world_degraded "''/w/locked/user.schema.json''"] l4
    by (auto intro: result_eq)
  have r5: "fst (validateJsonSyntax world_degraded ''/w/broken/user.schema.json'')
     = Inr \<lparr>valid = False, file = ''/w/broken/user.schema.json'',
            error = Some ''Unexpected token i in JSON at position 2''\<rparr>"
    using validateJsonSyntax_result [of world_degraded "''/w/broken/user.schema.json''"] l5 p5
    by (auto intro: result_eq)
  have r6: "fst (validateJsonSyntax world_degraded ''/w/remote.json'')
     = Inr \<lparr>valid = True, file = ''/w/remote.json'', error = None\<rparr>"
    using validateJsonSyntax_result [of world_degraded "''/w/remote.json''"] l6 p6
    by (auto intro: result_eq)
  from r1 r2 r3 r4 r5 r6 show ?thesis by blast
qed

text \<open>
  C7 as stated counts bad encoding among the read failures that are returned as an
  invalid result. A document whose bytes are not UTF-8 is read without failure, with
  U+FFFD in the place of the bad byte; here the text read parses, and the result is valid.
\<close>

theorem bad_encoding_is_read:
  "fs_lookup world_latin1 ''/w/latin1.json'' = Inr (File bytes_latin1)
   \<and> toString_utf8 bytes_latin1 \<noteq> bytes_latin1
   \<and> fs_read world_latin1 ''/w/latin1.json'' = Inr text_replaced
   \<and> fst (validateJsonSyntax world_latin1 ''/w/latin1.json'')
       = Inr \<lparr>valid = True, file = ''/w/latin1.json'', error = None\<rparr>
   \<and> output_of ''invalid-files'' (run world_latin1) = Some 0
   \<and> \<not> failed (run world_latin1)"
  by code_simp

lemma validateJsonSyntax_returns: "\<exists>r. fst (validateJsonSyntax w f) = Inr r"
  by (cases "fs_read w f"; cases "JSON_parse w (projr (fs_read w f))")
     (simp_all add: validateJsonSyntax_def io_simps)

lemma validateJsonSyntax_trace: "snd (validateJsonSyntax w f) = [ReadFileSync f]"
  by (cases "fs_read w f"; cases "JSON_parse w (projr (fs_read w f))")
     (simp_all add: validateJsonSyntax_def io_simps)

section \<open>Schema validation\<close>

lemma validateJsonSchema_trace: "snd (validateJsonSchema w f v) = [ReadFileSync f]"
  apply (cases "fs_read w f")
   apply (simp add: validateJsonSchema_def io_simps)
  apply (cases "JSON_parse w (projr (fs_read w f))")
   apply (simp add: validateJsonSchema_def io_simps)
  apply (cases "v (projr (JSON_parse w (projr (fs_read w f))))")
   apply (simp_all add: validateJsonSchema_def io_simps split: prod.splits)
  done

lemma validateJsonSchema_returns: "\<exists>r. fst (validateJsonSchema w f v) = Inr r"
  apply (cases "fs_read w f")
   apply (simp add: validateJsonSchema_def io_simps)
  apply (cases "JSON_parse w (projr (fs_read w f))")
   apply (simp add: validateJsonSchema_def io_simps)
  apply (cases "v (projr (JSON_parse w (projr (fs_read w f))))")
   apply (simp_all add: validateJsonSchema_def io_simps split: prod.splits)
  done

lemma loadSchema_trace: "snd (loadSchema w p) = [ReadFileSync p]"
  by (simp add: loadSchema_def snd_io_catch snd_io_bind fst_io_bind io_simps split: sum.splits)

lemma join_Cons_nonempty: "x \<noteq> [] \<Longrightarrow> join sep (x # xs) \<noteq> []"
  by (cases xs) simp_all

lemma errors_text_Some:
  "es \<noteq> [] \<Longrightarrow> errors_text (Some es) = join '', '' (map format_error es)"
  by (cases es) (simp_all add: errors_text_def Let_def join_Cons_nonempty format_error_def)

lemma run_fileValidate_allErrors: "list_all uses_allErrors (snd (run_fileValidate w g f))"
  by (simp add: run_fileValidate_def snd_io_catch snd_io_bind fst_io_bind io_simps
      loadSchema_trace new_Ajv_def addFormats_def Let_def split: sum.splits option.splits)

lemma run_file_allErrors: "list_all uses_allErrors (snd (run_file w g f))"
  using run_fileValidate_allErrors [of w g f]
  by (simp add: run_file_def snd_io_bind validateJsonSchema_trace validateJsonSyntax_trace
      split: sum.splits option.splits)

lemma run_loop_allErrors: "list_all uses_allErrors (snd (run_loop w g files))"
proof (induction files)
  case Nil
  show ?case by (simp add: io_simps)
next
  case (Cons f rest)
  with run_file_allErrors [of w g f] show ?case
    by (simp add: snd_io_bind io_simps split: sum.splits)
qed

lemma run_globalValidate_allErrors: "list_all uses_allErrors (snd (run_globalValidate w p))"
  by (simp add: run_globalValidate_def snd_io_bind fst_io_bind io_simps
      loadSchema_trace new_Ajv_def addFormats_def Let_def split: sum.splits)

lemma run_report_allErrors: "list_all uses_allErrors (snd (run_report rs))"
  by (auto simp add: run_report_def Let_def list_all_iff)

lemma run_allErrors: "list_all uses_allErrors (snd (run w))"
  using run_loop_allErrors run_globalValidate_allErrors run_report_allErrors
  by (simp add: run_def Let_def snd_io_catch snd_io_bind fst_io_bind io_simps findJsonFiles_def
      split: sum.splits)

text \<open>
  C8. A document that is read and parses is given to the compiled validator. Ajv
  validators return true and leave \<open>errors\<close> null, or return false and leave a non-empty
  array of violations. The result is valid exactly when there is no violation; otherwise
  its error is every violation reported, each as instance path, space, message, joined
  with a comma and a space. Every validator of a run is compiled by an instance created
  with \<open>allErrors: true\<close>, the option under which Ajv reports all violations.
\<close>

theorem validateJsonSchema_reports_all:
  assumes "fs_read w filePath = Inr content"
      and "JSON_parse w content = Inr d"
      and "validate d = Inr (ok, errs)"
      and "ok = (errs = None)"
      and "errs \<noteq> Some []"
  shows "fst (validateJsonSchema w filePath validate) =
           Inr \<lparr>valid = (errs = None), file = filePath,
                error = (case errs of
                           None \<Rightarrow> None
                         | Some es \<Rightarrow>
                             Some (join '', ''
                               (map (\<lambda>e. instancePath e @ '' '' @ template_of (message e)) es)))\<rparr>
         \<and> list_all uses_allErrors (snd (run w))"
proof (cases errs)
  case None
  with assms show ?thesis
    by (simp add: validateJsonSchema_def io_simps run_allErrors)
next
  case (Some es)
  with assms have "es \<noteq> []" by simp
  then have "errors_text (Some es) = join '', '' (map format_error es)"
    by (rule errors_text_Some)
  moreover have "map format_error es
      = map (\<lambda>e. instancePath e @ '' '' @ template_of (message e)) es"
    by (simp add: format_error_def)
  ultimately show ?thesis using assms Some
    by (simp add: validateJsonSchema_def io_simps run_allErrors)
qed

theorem validateJsonSchema_reports_all_witness:
  "fs_read world_shared ''/w/b.json'' = Inr text_unnamed
   \<and> JSON_parse world_shared text_unnamed
       = Inr (JObject [(''$schema'', JString ''./user.schema.json'')])
   \<and> tiny_validate (addFormats (new_Ajv True)) schema_required
         (JObject [(''$schema'', JString ''./user.schema.json'')])
       = Inr (False, Some [\<lparr>instancePath = [],
                              message = Some (''must have required property '' @ quoted ''name'')\<rparr>,
                           \<lparr>instancePath = [],
                              message = Some (''must have required property '' @ quoted ''email'')\<rparr>])
   \<and> fst (validateJsonSchema world_shared ''/w/b.json''
            (tiny_validate (addFormats (new_Ajv True)) schema_required))
       = Inr \<lparr>valid = False, file = ''/w/b.json'',
              error = Some ('' must have required property '' @ quoted ''name''
                            @ '',  must have required property '' @ quoted ''email'')\<rparr>
   \<and> list_all uses_allErrors (snd (run world_shared))"
proof -
  let ?d = "JObject [(''$schema'', JString ''./user.schema.json'')]"
  let ?es = "[\<lparr>instancePath = [],
                 message = Some (''must have required property '' @ quoted ''name'')\<rparr>,
              \<lparr>instancePath = [],
                 message = Some (''must have required property '' @ quoted ''email'')\<rparr>]"
  have h1: "fs_read world_shared ''/w/b.json'' = Inr text_unnamed"
    by code_simp
  have h2: "JSON_parse world_shared text_unnamed = Inr ?d"
    by code_simp
  have h3: "tiny_validate (addFormats (new_Ajv True)) schema_required ?d
              = Inr (False, Some ?es)"
    by code_simp
  have h4: "False = (Some ?es = None)" by simp
  have h5: "Some ?es \<noteq> Some []" by simp
  from validateJsonSchema_reports_all
         [where validate = "tiny_validate (addFormats (new_Ajv True)) schema_required"
            and d = ?d, OF h1 h2 h3 h4 h5]
  show ?thesis using h1 h2 h3
    by (simp add: template_of_def)
qed

section \<open>Resolving a declared schema\<close>

lemma isAbsolute_nonempty: "isAbsolute p \<Longrightarrow> p \<noteq> []"
  by (auto simp: isAbsolute_def)

lemma isAbsolute_Cons: "isAbsolute (c # cs) = (c = CHR ''/'')"
  by (simp add: isAbsolute_def)

lemma path_dirname_nonempty: "path_dirname p \<noteq> []"
  by (simp add: path_dirname_def Let_def)

lemma path_dirname_absolute: "isAbsolute p \<Longrightarrow> isAbsolute (path_dirname p)"
  by (cases p) (auto simp: path_dirname_def Let_def isAbsolute_def)

lemma resolve_args_absolute:
  "\<exists>p \<in> set ps. isAbsolute p \<Longrightarrow> fst (resolve_args ps acc)"
  by (induction ps acc rule: resolve_args.induct) (auto dest: isAbsolute_nonempty)

lemma path_resolve_absolute:
  assumes "isAbsolute wd \<or> (\<exists>p \<in> set args. isAbsolute p)"
  shows "isAbsolute (path_resolve wd args)"
proof -
  from assms have "\<exists>p \<in> set (rev (wd # args)). isAbsolute p" by auto
  then have "fst (resolve_args (rev (wd # args)) [])" by (rule resolve_args_absolute)
  then show ?thesis
    by (cases "resolve_args (rev (wd # args)) []") (simp add: path_resolve_def isAbsolute_def)
qed

lemma path_resolve_from_absolute:
  assumes "isAbsolute d"
  shows "path_resolve wd [d, s] = path_resolve wd' [d, s]"
  using assms by (auto simp: path_resolve_def dest: isAbsolute_nonempty)

lemma path_resolve_nonempty: "path_resolve wd args \<noteq> []"
  by (cases "resolve_args (rev (wd # args)) []") (simp add: path_resolve_def Let_def)

lemma extractSchemaFromJson_nonempty:
  "extractSchemaFromJson w content f = Some p \<Longrightarrow> p \<noteq> []"
  by (auto simp: extractSchemaFromJson_def path_resolve_nonempty Let_def
      split: sum.splits json.splits option.splits if_splits)

text \<open>
  C5. When the text of a document parses to an object whose \<open>$schema\<close> is a string that
  starts with neither \<open>http://\<close> nor \<open>https://\<close>, the schema path is that string
  resolved against the directory of the document: an absolute path which, the documents
  being identified by absolute paths, is the same whatever the working directory is.
\<close>

theorem extractSchemaFromJson_resolves_local:
  assumes "JSON_parse w content = Inr (JObject kvs)"
      and "map_of kvs ''$schema'' = Some (JString schemaRef)"
      and "\<not> startsWith schemaRef ''http://''"
      and "\<not> startsWith schemaRef ''https://''"
      and "isAbsolute filePath"
  shows "extractSchemaFromJson w content filePath
           = Some (path_resolve (cwd w) [path_dirname filePath, schemaRef])
         \<and> isAbsolute (path_resolve (cwd w) [path_dirname filePath, schemaRef])
         \<and> (\<forall>wd. path_resolve wd [path_dirname filePath, schemaRef]
                   = path_resolve (cwd w) [path_dirname filePath, schemaRef])"
proof -
  have abs: "isAbsolute (path_dirname filePath)"
    using assms(5) by (rule path_dirname_absolute)
  have "extractSchemaFromJson w content filePath
           = Some (path_resolve (cwd w) [path_dirname filePath, schemaRef])"
    using assms by (simp add: extractSchemaFromJson_def)
  moreover have "isAbsolute (path_resolve (cwd w) [path_dirname filePath, schemaRef])"
    using abs by (simp add: path_resolve_absolute)
  moreover have "\<forall>wd. path_resolve wd [path_dirname filePath, schemaRef]
                   = path_resolve (cwd w) [path_dirname filePath, schemaRef]"
    using path_resolve_from_absolute [OF abs] by blast
  ultimately show ?thesis by simp
qed

theorem extractSchemaFromJson_resolves_local_witness:
  "JSON_parse world_shared text_named
     = Inr (JObject [(''$schema'', JString ''./user.schema.json''), (''name'', JString ''a'')])
   \<and> map_of [(''$schema'', JString ''./user.schema.json''), (''name'', JString ''a'')] ''$schema''
     = Some (JString ''./user.schema.json'')
   \<and> \<not> startsWith ''./user.schema.json'' ''http://''
   \<and> \<not> startsWith ''./user.schema.json'' ''https://''
   \<and> isAbsolute ''/a/b/doc.json''
   \<and> cwd world_shared = ''/w''
   \<and> extractSchemaFromJson world_shared text_named ''/a/b/doc.json''
     = Some ''/a/b/user.schema.json''
   \<and> isAbsolute ''/a/b/user.schema.json''
   \<and> (\<forall>wd. path_resolve wd [path_dirname ''/a/b/doc.json'', ''./user.schema.json'']
            = ''/a/b/user.schema.json'')"
proof -
  let ?kvs = "[(''$schema'', JString ''./user.schema.json''), (''name'', JString ''a'')]"
  have h1: "JSON_parse world_shared text_named = Inr (JObject ?kvs)"
    by code_simp
  have h2: "map_of ?kvs ''$schema'' = Some (JString ''./user.schema.json'')"
    by simp
  have h3: "\<not> startsWith ''./user.schema.json'' ''http://''"
    by (simp add: startsWith_def)
  have h4: "\<not> startsWith ''./user.schema.json'' ''https://''"
    by (simp add: startsWith_def)
  have h5: "isAbsolute ''/a/b/doc.json''"
    by (simp add: isAbsolute_def)
  have c: "cwd world_shared = ''/w''"
    by (simp add: world_shared_def example_world_def)
  have r: "path_resolve ''/w'' [path_dirname ''/a/b/doc.json'', ''./user.schema.json'']
             = ''/a/b/user.schema.json''"
    by code_simp
  from extractSchemaFromJson_resolves_local [OF h1 h2 h3 h4 h5]
  show ?thesis using h1 h2 h3 h4 h5 c r by simp
qed

text \<open>The second example of the tests: a reference that climbs out of the document's directory.\<close>

lemma extractSchemaFromJson_parent_example:
  "path_resolve ''/w'' [path_dirname ''/w/fixtures/valid/test.json'', ''../schema/product.schema.json'']
     = ''/w/fixtures/schema/product.schema.json''"
  by code_simp

section \<open>Documents without a usable schema\<close>

lemma run_fileValidate_returns: "\<exists>v. fst (run_fileValidate w g f) = Inr v"
  by (simp add: run_fileValidate_def fst_io_catch fst_io_bind io_simps Let_def
      split: sum.splits option.splits)

lemma run_file_None:
  "run_fileValidate w g f = (Inr None, tr) \<Longrightarrow>
     run_file w g f = (fst (validateJsonSyntax w f), tr @ [ReadFileSync f])"
  by (simp add: run_file_def io_simps validateJsonSyntax_trace)

lemma run_file_returns: "\<exists>r. fst (run_file w g f) = Inr r"
proof -
  have "\<exists>v. fst (run_fileValidate w g f) = Inr v"
    by (simp add: run_fileValidate_def fst_io_catch fst_io_bind io_simps Let_def
        split: sum.splits option.splits)
  then obtain v where "fst (run_fileValidate w g f) = Inr v" ..
  then show ?thesis
    using validateJsonSyntax_returns [of w f] validateJsonSchema_returns [of w f]
    by (cases v) (simp_all add: run_file_def fst_io_bind)
qed

lemma run_loop_returns: "\<exists>rs. fst (run_loop w g files) = Inr rs \<and> length rs = length files"
proof (induction files)
  case Nil
  show ?case by (simp add: io_simps)
next
  case (Cons f rest)
  then obtain rs where "fst (run_loop w g rest) = Inr rs" "length rs = length rest" by blast
  moreover obtain r where "fst (run_file w g f) = Inr r" using run_file_returns by blast
  ultimately show ?case by (simp add: fst_io_bind io_simps)
qed

text \<open>
  C6. A document whose \<open>$schema\<close> is a string starting with \<open>http://\<close> or \<open>https://\<close>
  has no schema: \<open>extractSchemaFromJson\<close> returns null, and deciding the document's
  validator touches the file system only to read the document itself: the value is never
  tested for existence, loaded or compiled, and the document gets the syntax check.
\<close>

theorem remote_schema_is_no_schema:
  assumes "fs_read w filePath = Inr content"
      and "JSON_parse w content = Inr (JObject kvs)"
      and "map_of kvs ''$schema'' = Some (JString schemaRef)"
      and "startsWith schemaRef ''http://'' \<or> startsWith schemaRef ''https://''"
  shows "extractSchemaFromJson w content filePath = None
         \<and> run_fileValidate w None filePath = (Inr None, [ReadFileSync filePath])
         \<and> run_file w None filePath
             = (fst (validateJsonSyntax w filePath), [ReadFileSync filePath, ReadFileSync filePath])"
proof -
  have e: "extractSchemaFromJson w content filePath = None"
    using assms by (auto simp: extractSchemaFromJson_def)
  have v: "run_fileValidate w None filePath = (Inr None, [ReadFileSync filePath])"
    using assms(1) e by (simp add: run_fileValidate_def io_simps)
  from run_file_None [OF v] e v show ?thesis by simp
qed

theorem remote_schema_is_no_schema_witness:
  "fs_read world_degraded ''/w/remote.json'' = Inr text_remote
   \<and> JSON_parse world_degraded text_remote
       = Inr (JObject [(''$schema'', JString ''http://json-schema.org/draft-07/schema#''),
                       (''name'', JString ''test'')])
   \<and> startsWith ''http://json-schema.org/draft-07/schema#'' ''http://''
   \<and> extractSchemaFromJson world_degraded text_remote ''/w/remote.json'' = None
   \<and> run_fileValidate world_degraded None ''/w/remote.json''
       = (Inr None, [ReadFileSync ''/w/remote.json''])
   \<and> run_file world_degraded None ''/w/remote.json''
       = (Inr \<lparr>valid = True, file = ''/w/remote.json'', error = None\<rparr>,
          [ReadFileSync ''/w/remote.json'', ReadFileSync ''/w/remote.json''])"
proof -
  let ?kvs = "[(''$schema'', JString ''http://json-schema.org/draft-07/schema#''),
               (''name'', JString ''test'')]"
  have h1: "fs_read world_degraded ''/w/remote.json'' = Inr text_remote"
    by code_simp
  have h2: "JSON_parse world_degraded text_remote = Inr (JObject ?kvs)"
    by code_simp
  have h3: "map_of ?kvs ''$schema'' = Some (JString ''http://json-schema.org/draft-07/schema#'')"
    by simp
  have s: "startsWith ''http://json-schema.org/draft-07/schema#'' ''http://''"
    by (simp add: startsWith_def)
  then have h4: "startsWith ''http://json-schema.org/draft-07/schema#'' ''http://''
               \<or> startsWith ''http://json-schema.org/draft-07/schema#'' ''https://''" ..
  have v: "fst (validateJsonSyntax world_degraded ''/w/remote.json'')
             = Inr \<lparr>valid = True, file = ''/w/remote.json'', error = None\<rparr>"
    by code_simp
  from remote_schema_is_no_schema [OF h1 h2 h3 h4]
  show ?thesis using h1 h2 s v by simp
qed

text \<open>
  C9. Without a global schema, a document that declares a local schema path which is not
  on disk gets no validator: after the existence test nothing is loaded or compiled,
  nothing is thrown, and the document's result is the result of the syntax check.
\<close>

theorem missing_schema_degrades:
  assumes "fs_read w f = Inr content"
      and "extractSchemaFromJson w content f = Some p"
      and "fs_node w p = None"
  shows "run_fileValidate w None f = (Inr None, [ReadFileSync f, ExistsSync p])
         \<and> run_file w None f
             = (fst (validateJsonSyntax w f), [ReadFileSync f, ExistsSync p, ReadFileSync f])
         \<and> (\<exists>r. fst (run_file w None f) = Inr r)"
proof -
  have "p \<noteq> []" using assms(2) by (rule extractSchemaFromJson_nonempty)
  then have v: "run_fileValidate w None f = (Inr None, [ReadFileSync f, ExistsSync p])"
    using assms by (simp add: run_fileValidate_def io_simps)
  from run_file_None [OF v] v run_file_returns [of w None f] show ?thesis by simp
qed

theorem missing_schema_degrades_witness:
  "fs_read world_degraded ''/w/missing/doc.json'' = Inr text_missing
   \<and> extractSchemaFromJson world_degraded text_missing ''/w/missing/doc.json''
       = Some ''/w/missing/missing.schema.json''
   \<and> fs_node world_degraded ''/w/missing/missing.schema.json'' = None
   \<and> run_fileValidate world_degraded None ''/w/missing/doc.json''
       = (Inr None, [ReadFileSync ''/w/missing/doc.json'',
                     ExistsSync ''/w/missing/missing.schema.json''])
   \<and> run_file world_degraded None ''/w/missing/doc.json''
       = (Inr \<lparr>valid = True, file = ''/w/missing/doc.json'', error = None\<rparr>,
          [ReadFileSync ''/w/missing/doc.json'',
           ExistsSync ''/w/missing/missing.schema.json'',
           ReadFileSync ''/w/missing/doc.json''])"
proof -
  have h1: "fs_read world_degraded ''/w/missing/doc.json'' = Inr text_missing"
    by code_simp
  have h2: "extractSchemaFromJson world_degraded text_missing ''/w/missing/doc.json''
              = Some ''/w/missing/missing.schema.json''"
    by code_simp
  have h3: "fs_node world_degraded ''/w/missing/missing.schema.json'' = None"
    by code_simp
  have v: "fst (validateJsonSyntax world_degraded ''/w/missing/doc.json'')
             = Inr \<lparr>valid = True, file = ''/w/missing/doc.json'', error = None\<rparr>"
    by code_simp
  from missing_schema_degrades [OF h1 h2 h3]
  show ?thesis using h1 h2 h3 v by simp
qed

text \<open>
  C10. Without a global schema, when the declared schema path exists but loading the
  schema (reading it, parsing it) or compiling it throws, the exception is dropped: the
  document gets no validator, its result is the result of the syntax check, nothing is
  reported as failed, and the loop goes on to give one result per file.
\<close>

theorem unusable_schema_is_swallowed:
  assumes "fs_read w f = Inr content"
      and "extractSchemaFromJson w content f = Some p"
      and "fs_node w p \<noteq> None"
      and "fst (io_bind (loadSchema w p) (compile w (addFormats (new_Ajv True)))) = Inl e"
  shows "fst (run_fileValidate w None f) = Inr None
         \<and> fst (run_file w None f) = fst (validateJsonSyntax w f)
         \<and> (\<exists>r. fst (run_file w None f) = Inr r)
         \<and> \<not> failed (run_file w None f)
         \<and> (\<forall>files. \<exists>rs. fst (run_loop w None files) = Inr rs \<and> length rs = length files)"
proof -
  have ne: "p \<noteq> []" using assms(2) by (rule extractSchemaFromJson_nonempty)
  have v: "fst (run_fileValidate w None f) = Inr None"
    using assms ne
    by (auto simp add: run_fileValidate_def fst_io_catch fst_io_bind io_simps Let_def
        split: sum.splits)
  then obtain tr where vt: "run_fileValidate w None f = (Inr None, tr)"
    by (cases "run_fileValidate w None f") simp
  have nf: "\<not> list_ex is_SetFailed (snd (run_fileValidate w None f))"
    by (simp add: run_fileValidate_def snd_io_catch snd_io_bind fst_io_bind io_simps
        loadSchema_trace Let_def split: sum.splits option.splits)
  from run_file_None [OF vt] vt nf v run_file_returns [of w None f] run_loop_returns [of w None]
  show ?thesis by (simp add: failed_def)
qed

theorem unusable_schema_is_swallowed_witness:
  "fs_read world_degraded ''/w/broken/doc.json'' = Inr text_named
   \<and> extractSchemaFromJson world_degraded text_named ''/w/broken/doc.json''
       = Some ''/w/broken/user.schema.json''
   \<and> fs_node world_degraded ''/w/broken/user.schema.json'' \<noteq> None
   \<and> fst (io_bind (loadSchema world_degraded ''/w/broken/user.schema.json'')
             (compile world_degraded (addFormats (new_Ajv True))))
       = Inl (ErrorInstance ''Error''
           (''Failed to load schema from /w/broken/user.schema.json: ''
            @ ''SyntaxError: Unexpected token i in JSON at position 2''))
   \<and> fst (run_fileValidate world_degraded None ''/w/broken/doc.json'') = Inr None
   \<and> fst (run_file world_degraded None ''/w/broken/doc.json'')
       = Inr \<lparr>valid = True, file = ''/w/broken/doc.json'', error = None\<rparr>
   \<and> \<not> failed (run_file world_degraded None ''/w/broken/doc.json'')"
proof -
  have h1: "fs_read world_degraded ''/w/broken/doc.json'' = Inr text_named"
    by code_simp
  have h2: "extractSchemaFromJson world_degraded text_named ''/w/broken/doc.json''
              = Some ''/w/broken/user.schema.json''"
    by code_simp
  have h3: "fs_node world_degraded ''/w/broken/user.schema.json'' \<noteq> None"
    by code_simp
  have l: "fst (loadSchema world_degraded ''/w/broken/user.schema.json'')
       = Inl (ErrorInstance ''Error''
           (''Failed to load schema from /w/broken/user.schema.json: ''
            @ ''SyntaxError: Unexpected token i in JSON at position 2''))"
    by code_simp
  then have h4: "fst (io_bind (loadSchema world_degraded ''/w/broken/user.schema.json'')
                  (compile world_degraded (addFormats (new_Ajv True))))
       = Inl (ErrorInstance ''Error''
           (''Failed to load schema from /w/broken/user.schema.json: ''
            @ ''SyntaxError: Unexpected token i in JSON at position 2''))"
    by (simp add: fst_io_bind)
  have v: "fst (validateJsonSyntax world_degraded ''/w/broken/doc.json'')
             = Inr \<lparr>valid = True, file = ''/w/broken/doc.json'', error = None\<rparr>"
    by code_simp
  from unusable_schema_is_swallowed [OF h1 h2 h3 h4]
  show ?thesis using h1 h2 h3 h4 v by simp
qed

lemma schema_that_does_not_compile:
  "fst (io_bind (loadSchema world_degraded ''/w/null/user.schema.json'')
          (compile world_degraded (addFormats (new_Ajv True))))
     = Inl (ErrorInstance ''Error'' ''schema must be object or boolean'')
   \<and> fst (run_file world_degraded None ''/w/null/doc.json'')
     = Inr \<lparr>valid = True, file = ''/w/null/doc.json'', error = None\<rparr>"
proof -
  have "fst (loadSchema world_degraded ''/w/null/user.schema.json'') = Inr JNull"
    by code_simp
  moreover have "ajv_compile world_degraded (addFormats (new_Ajv True)) JNull
      = Inl (ErrorInstance ''Error'' ''schema must be object or boolean'')"
    by (simp add: world_degraded_def example_world_def tiny_compile_def)
  moreover have "fst (run_file world_degraded None ''/w/null/doc.json'')
     = Inr \<lparr>valid = True, file = ''/w/null/doc.json'', error = None\<rparr>"
    by code_simp
  ultimately show ?thesis by (simp add: fst_io_bind compile_def)
qed

lemma schema_that_cannot_be_read:
  "fst (loadSchema world_degraded ''/w/locked/user.schema.json'')
     = Inl (ErrorInstance ''Error''
         (''Failed to load schema from /w/locked/user.schema.json: ''
          @ ''Error: EACCES: permission denied, open '' @ quoted ''/w/locked/user.schema.json''))
   \<and> fst (run_file world_degraded None ''/w/locked/doc.json'')
     = Inr \<lparr>valid = True, file = ''/w/locked/doc.json'', error = None\<rparr>"
  by code_simp

section \<open>The global schema\<close>

lemma run_fileValidate_global: "run_fileValidate w (Some v) f = (Inr (Some v), [])"
  by (simp add: run_fileValidate_def io_simps)

lemma run_file_global: "run_file w (Some v) f = validateJsonSchema w f v"
  by (simp add: run_file_def run_fileValidate_global io_simps)

lemma run_loop_global_trace: "snd (run_loop w (Some v) files) = map ReadFileSync files"
proof (induction files)
  case Nil
  show ?case by (simp add: io_simps)
next
  case (Cons f rest)
  obtain r where "fst (validateJsonSchema w f v) = Inr r"
    using validateJsonSchema_returns by blast
  moreover obtain rs where "fst (run_loop w (Some v) rest) = Inr rs"
    using run_loop_returns by blast
  ultimately show ?case using Cons
    by (simp add: snd_io_bind run_file_global validateJsonSchema_trace io_simps)
qed

text \<open>
  C4. With a non-empty global schema path, whenever the setup returns at all it returns
  the validator compiled from the schema loaded from that path, and with it the validator
  of every document is that one, decided without a single event: the document is not
  read, and no path is tested, loaded or compiled for it. Each document is then read once,
  by the validation itself.
\<close>

theorem global_schema_takes_precedence:
  assumes "schemaPath \<noteq> []"
      and "fst (run_globalValidate w schemaPath) = Inr g"
  shows "\<exists>schema v.
           fst (loadSchema w schemaPath) = Inr schema
           \<and> ajv_compile w (addFormats (new_Ajv True)) schema = Inr v
           \<and> g = Some v
           \<and> (\<forall>f. run_fileValidate w g f = (Inr (Some v), []))
           \<and> (\<forall>f. run_file w g f = validateJsonSchema w f v)
           \<and> (\<forall>files. snd (run_loop w g files) = map ReadFileSync files)"
proof -
  from assms obtain schema where l: "fst (loadSchema w schemaPath) = Inr schema"
    by (cases "fst (loadSchema w schemaPath)")
       (simp_all add: run_globalValidate_def fst_io_bind io_simps)
  with assms obtain v where c: "ajv_compile w (addFormats (new_Ajv True)) schema = Inr v"
    by (cases "ajv_compile w (addFormats (new_Ajv True)) schema")
       (simp_all add: run_globalValidate_def fst_io_bind io_simps Let_def)
  with assms l have "g = Some v"
    by (simp add: run_globalValidate_def fst_io_bind io_simps Let_def)
  with l c show ?thesis
    by (simp add: run_fileValidate_global run_file_global run_loop_global_trace)
qed

theorem global_schema_takes_precedence_witness:
  "''schemas/s.json'' \<noteq> []
   \<and> getInput world_global ''schema'' = ''schemas/s.json''
   \<and> fst (run_globalValidate world_global ''schemas/s.json'')
       = Inr (Some (tiny_validate (addFormats (new_Ajv True)) schema_required))
   \<and> declared_schema world_global ''/w/a.json'' = Some ''/w/missing.schema.json''
   \<and> run_fileValidate world_global
         (Some (tiny_validate (addFormats (new_Ajv True)) schema_required)) ''/w/a.json''
       = (Inr (Some (tiny_validate (addFormats (new_Ajv True)) schema_required)), [])
   \<and> run_file world_global
         (Some (tiny_validate (addFormats (new_Ajv True)) schema_required)) ''/w/a.json''
       = validateJsonSchema world_global ''/w/a.json''
           (tiny_validate (addFormats (new_Ajv True)) schema_required)
   \<and> snd (run_loop world_global
         (Some (tiny_validate (addFormats (new_Ajv True)) schema_required))
         [''/w/a.json'', ''/w/b.json''])
       = [ReadFileSync ''/w/a.json'', ReadFileSync ''/w/b.json'']"
proof -
  let ?v = "tiny_validate (addFormats (new_Ajv True)) schema_required"
  have h1: "''schemas/s.json'' \<noteq> []" by simp
  have i: "getInput world_global ''schema'' = ''schemas/s.json''"
    by code_simp
  have l: "fst (loadSchema world_global ''schemas/s.json'') = Inr (JObject schema_required)"
    by code_simp
  have c: "ajv_compile world_global (addFormats (new_Ajv True)) (JObject schema_required)
             = Inr ?v"
    by (simp add: world_global_def example_world_def tiny_compile_def)
  have h2: "fst (run_globalValidate world_global ''schemas/s.json'') = Inr (Some ?v)"
    using l c by (simp add: run_globalValidate_def fst_io_bind io_simps Let_def)
  have d: "declared_schema world_global ''/w/a.json'' = Some ''/w/missing.schema.json''"
    by code_simp
  from global_schema_takes_precedence [OF h1 h2]
  show ?thesis using h1 h2 i d by (auto simp del: run_loop.simps)
qed

section \<open>How often a schema is compiled\<close>

lemma run_fileValidate_compiles:
  "length (filter is_AjvCompile (snd (run_fileValidate w None f)))
     = (if declares_loadable w f then 1 else 0)"
proof (cases "declared_schema w f")
  case None
  then show ?thesis
    by (auto simp: run_fileValidate_def declares_loadable_def declared_schema_def
        snd_io_catch snd_io_bind fst_io_bind io_simps split: sum.splits option.splits)
next
  case (Some p)
  then obtain content where r: "fs_read w f = Inr content"
    and e: "extractSchemaFromJson w content f = Some p"
    by (auto simp: declared_schema_def split: sum.splits)
  from e have ne: "p \<noteq> []" by (rule extractSchemaFromJson_nonempty)
  show ?thesis
  proof (cases "fs_node w p")
    case None
    with Some r e ne show ?thesis
      by (simp add: run_fileValidate_def declares_loadable_def io_simps)
  next
    case ex: (Some n)
    show ?thesis
    proof (cases "fst (loadSchema w p)")
      case (Inl err)
      with Some r e ne ex show ?thesis
        by (simp add: run_fileValidate_def declares_loadable_def snd_io_catch snd_io_bind
            fst_io_bind io_simps loadSchema_trace)
    next
      case (Inr schema)
      with Some r e ne ex show ?thesis
        by (simp add: run_fileValidate_def declares_loadable_def snd_io_catch snd_io_bind
            fst_io_bind io_simps loadSchema_trace Let_def split: sum.splits)
    qed
  qed
qed

lemma run_file_compiles:
  "length (filter is_AjvCompile (snd (run_file w None f)))
     = (if declares_loadable w f then 1 else 0)"
proof -
  obtain v where "fst (run_fileValidate w None f) = Inr v"
    using run_fileValidate_returns by blast
  then have "filter is_AjvCompile (snd (run_file w None f))
      = filter is_AjvCompile (snd (run_fileValidate w None f))"
    by (cases v)
       (simp_all add: run_file_def snd_io_bind validateJsonSyntax_trace validateJsonSchema_trace)
  then show ?thesis by (simp add: run_fileValidate_compiles)
qed

lemma run_loop_compiles:
  "length (filter is_AjvCompile (snd (run_loop w None files)))
     = length (filter (declares_loadable w) files)"
proof (induction files)
  case Nil
  show ?case by (simp add: io_simps)
next
  case (Cons f rest)
  obtain r where "fst (run_file w None f) = Inr r"
    using run_file_returns by blast
  moreover obtain rs where "fst (run_loop w None rest) = Inr rs"
    using run_loop_returns by blast
  ultimately show ?case using Cons run_file_compiles [of w f]
    by (simp add: snd_io_bind io_simps)
qed

lemma run_loop_global_compiles:
  "filter is_AjvCompile (snd (run_loop w (Some v) files)) = []"
  by (simp add: run_loop_global_trace filter_empty_conv)

lemma run_report_compiles: "filter is_AjvCompile (snd (run_report rs)) = []"
  by (auto simp: run_report_def Let_def filter_empty_conv)

lemma run_report_returns: "fst (run_report rs) = Inr ()"
  by (simp add: run_report_def Let_def)

lemma run_globalValidate_empty: "run_globalValidate w [] = (Inr None, [])"
  by (simp add: run_globalValidate_def io_simps)

lemma run_globalValidate_compiles:
  "p \<noteq> [] \<Longrightarrow> length (filter is_AjvCompile (snd (run_globalValidate w p)))
     = (case fst (loadSchema w p) of Inl e \<Rightarrow> 0 | Inr s \<Rightarrow> 1)"
  by (simp add: run_globalValidate_def snd_io_bind fst_io_bind io_simps loadSchema_trace Let_def
      split: sum.splits)

lemma run_globalValidate_Some:
  "p \<noteq> [] \<Longrightarrow> fst (run_globalValidate w p) = Inr g \<Longrightarrow> \<exists>v. g = Some v"
  by (auto simp: run_globalValidate_def snd_io_bind fst_io_bind io_simps Let_def
      split: sum.splits)

text \<open>
  C1, as amended. A run that finds no document, or whose discovery fails, compiles
  nothing. With a global schema the run compiles once if the schema loads and not at all
  otherwise, however many documents there are. Without a global schema nothing is kept
  from one document to the next: the run compiles once for every discovered document that
  declares a schema which exists and loads, so that documents sharing a schema path have
  it compiled once each.
\<close>

theorem compilations_of_a_run:
  "length (compilations (run w)) =
     (case fst (findJsonFiles w (folder_of w)) of
        Inl e \<Rightarrow> 0
      | Inr jsonFiles \<Rightarrow>
          if jsonFiles = [] then 0
          else if getInput w ''schema'' \<noteq> []
          then (case fst (loadSchema w (getInput w ''schema'')) of Inl e \<Rightarrow> 0 | Inr s \<Rightarrow> 1)
          else length (filter (declares_loadable w) jsonFiles))"
proof (cases "fst (findJsonFiles w (folder_of w))")
  case (Inl e)
  then show ?thesis
    by (simp add: compilations_def run_def folder_of_def Let_def snd_io_catch snd_io_bind
        fst_io_bind io_simps findJsonFiles_def)
next
  case (Inr jsonFiles)
  have g: "snd (findJsonFiles w (folder_of w))
      = [FastGlob ''**/*.json'' \<lparr>fg_cwd = path_join [cwd w, folder_of w], fg_absolute = True,
                                   fg_ignore = default_ignore\<rparr>]"
    by (simp add: findJsonFiles_def Let_def)
  show ?thesis
  proof (cases "jsonFiles = []")
    case True
    with Inr g show ?thesis
      by (simp add: compilations_def run_def folder_of_def [symmetric] Let_def snd_io_catch
          snd_io_bind fst_io_bind io_simps)
  next
    case ne: False
    show ?thesis
    proof (cases "getInput w ''schema'' = []")
      case True
      obtain rs where "fst (run_loop w None jsonFiles) = Inr rs"
        using run_loop_returns by blast
      with True Inr g ne run_loop_compiles [of w jsonFiles] show ?thesis
        by (simp add: compilations_def run_def folder_of_def [symmetric] Let_def snd_io_catch
            snd_io_bind fst_io_bind io_simps run_globalValidate_empty run_report_compiles
            run_report_returns)
    next
      case False
      show ?thesis
      proof (cases "fst (run_globalValidate w (getInput w ''schema''))")
        case (Inl err)
        with False Inr g ne run_globalValidate_compiles [OF False, of w] show ?thesis
          by (simp add: compilations_def run_def folder_of_def [symmetric] Let_def snd_io_catch
              snd_io_bind fst_io_bind io_simps)
      next
        case gv: (Inr gl)
        with False obtain v where v: "gl = Some v"
          using run_globalValidate_Some by blast
        obtain rs where "fst (run_loop w (Some v) jsonFiles) = Inr rs"
          using run_loop_returns by blast
        with False Inr g ne gv v run_globalValidate_compiles [OF False, of w] show ?thesis
          by (simp add: compilations_def run_def folder_of_def [symmetric] Let_def snd_io_catch
              snd_io_bind fst_io_bind io_simps run_loop_global_compiles run_report_compiles
              run_report_returns)
      qed
    qed
  qed
qed

text \<open>Three documents under a global schema: one compilation.\<close>

lemma global_schema_compiled_once:
  "fst (findJsonFiles world_global ''.'')
     = Inr [''/w/a.json'', ''/w/b.json'', ''/w/schemas/s.json'']
   \<and> compilations (run world_global)
       = [AjvCompile \<lparr>allErrors = True, formats = True\<rparr> (JObject schema_required)]"
  by code_simp

text \<open>
  C1 as stated, at most one compilation for each distinct schema path, fails: two
  documents declare the same schema path, and the run compiles that schema twice.
\<close>

theorem shared_schema_compiled_twice:
  "fst (findJsonFiles world_shared ''.'')
     = Inr [''/w/a.json'', ''/w/b.json'', ''/w/user.schema.json'']
   \<and> declared_schema world_shared ''/w/a.json'' = Some ''/w/user.schema.json''
   \<and> declared_schema world_shared ''/w/b.json'' = Some ''/w/user.schema.json''
   \<and> declared_schema world_shared ''/w/user.schema.json'' = None
   \<and> compilations (run world_shared)
       = [AjvCompile \<lparr>allErrors = True, formats = True\<rparr> (JObject schema_required),
          AjvCompile \<lparr>allErrors = True, formats = True\<rparr> (JObject schema_required)]
   \<and> \<not> length (compilations (run world_shared)) \<le> 1"
  by code_simp

section \<open>The inputs a run reads\<close>

text \<open>
  C2. The run of a world with one document that is not JSON and the input
  \<open>fail-on-invalid\<close> set to \<open>false\<close>: one invalid file is counted and \<open>core.setFailed\<close>
  is called, although with that input a run with invalid files is to end in success.
\<close>

theorem fail_on_invalid_is_not_read:
  "getInput world_lenient ''fail-on-invalid'' = ''false''
   \<and> fst (findJsonFiles world_lenient ''.'') = Inr [''/w/bad.json'']
   \<and> output_of ''valid-files'' (run world_lenient) = Some 0
   \<and> output_of ''invalid-files'' (run world_lenient) = Some 1
   \<and> failed (run world_lenient)"
  by code_simp

text \<open>
  C3. Discovery in a world whose input \<open>ignore\<close> is \<open>**/build/**\<close>, with one document under
  \<open>build\<close> and one under \<open>lib\<close>: \<open>findJsonFiles\<close> returns the document under \<open>build\<close> and
  leaves out the one under \<open>lib\<close>, its ignore list being the four fixed patterns; the glob
  engine given the input's pattern instead returns the document under \<open>lib\<close>.
\<close>

theorem ignore_is_not_read:
  "getInput world_ignore ''ignore'' = ''**/build/**''
   \<and> fst (findJsonFiles world_ignore ''.'') = Inr [''/w/build/out.json'']
   \<and> fg world_ignore ''**/*.json''
        \<lparr>fg_cwd = ''/w'', fg_absolute = True, fg_ignore = [''**/build/**'']\<rparr>
       = Inr [''/w/lib/data.json'']
   \<and> output_of ''valid-files'' (run world_ignore) = Some 1"
  by code_simp

text \<open>
  With no \<open>ignore\<close> input the fixed patterns apply: documents under \<open>node_modules\<close>,
  \<open>dist\<close>, \<open>lib\<close> and \<open>.git\<close>, at any depth, are not discovered.
\<close>

lemma default_ignore_example:
  "fst (findJsonFiles world_defaults ''.'')
     = Inr [''/w/package.json'', ''/w/library/distribution.json'']"
  by code_simp

lemma run_fileValidate_no_setFailed: "\<not> list_ex is_SetFailed (snd (run_fileValidate w g f))"
  by (simp add: run_fileValidate_def snd_io_catch snd_io_bind fst_io_bind io_simps
      loadSchema_trace Let_def split: sum.splits option.splits)

lemma run_file_no_setFailed: "\<not> list_ex is_SetFailed (snd (run_file w g f))"
  using run_fileValidate_no_setFailed [of w g f]
  by (simp add: run_file_def snd_io_bind validateJsonSchema_trace validateJsonSyntax_trace
      split: sum.splits option.splits)

lemma run_loop_no_setFailed: "\<not> list_ex is_SetFailed (snd (run_loop w g files))"
proof (induction files)
  case Nil
  show ?case by (simp add: io_simps)
next
  case (Cons f rest)
  with run_file_no_setFailed [of w g f] show ?case
    by (simp add: snd_io_bind io_simps split: sum.splits)
qed

lemma run_globalValidate_no_setFailed: "\<not> list_ex is_SetFailed (snd (run_globalValidate w p))"
  by (simp add: run_globalValidate_def snd_io_bind fst_io_bind io_simps loadSchema_trace Let_def
      split: sum.splits)

lemma run_report_setFailed:
  "list_ex is_SetFailed (snd (run_report rs)) = (filter (\<lambda>r. \<not> valid r) rs \<noteq> [])"
  by (auto simp: run_report_def Let_def list_ex_iff)

text \<open>
  The verdict of a run: it fails when discovery or the setup of the global schema throws,
  and otherwise exactly when some result is invalid.
\<close>

lemma run_verdict:
  "failed (run w) =
     (case fst (findJsonFiles w (folder_of w)) of
        Inl e \<Rightarrow> True
      | Inr jsonFiles \<Rightarrow>
          if jsonFiles = [] then False
          else (case fst (run_globalValidate w (getInput w ''schema'')) of
                  Inl e \<Rightarrow> True
                | Inr g \<Rightarrow>
                    (case fst (run_loop w g jsonFiles) of
                       Inl e \<Rightarrow> True
                     | Inr results \<Rightarrow> filter (\<lambda>r. \<not> valid r) results \<noteq> [])))"
  using run_loop_no_setFailed [of w] run_globalValidate_no_setFailed [of w]
  by (simp add: failed_def run_def folder_of_def [symmetric] Let_def snd_io_catch snd_io_bind
      fst_io_bind io_simps findJsonFiles_def run_report_setFailed run_report_returns
      split: sum.splits)

text \<open>
  When the setup of the global schema throws, the run ends there, failed: no document
  has been read.
\<close>

lemma global_setup_failure_aborts:
  assumes "fst (findJsonFiles w (folder_of w)) = Inr jsonFiles"
      and "jsonFiles \<noteq> []"
      and "fst (run_globalValidate w (getInput w ''schema'')) = Inl e"
  shows "run w =
           (Inr (),
            [Info (Scanning (folder_of w))] @ snd (findJsonFiles w (folder_of w))
            @ [Info (FoundFiles (length jsonFiles))]
            @ snd (run_globalValidate w (getInput w ''schema''))
            @ [SetFailed (ActionFailed (errorMessage_of e))])"
  using assms
  by (cases "findJsonFiles w (folder_of w)";
      cases "run_globalValidate w (getInput w ''schema'')")
     (simp add: run_def folder_of_def [symmetric] Let_def io_simps)

lemma fs_lookup_inputs: "fs_lookup (w\<lparr>inputs := ins\<rparr>) p = fs_lookup w p"
  by (simp add: fs_lookup_def)

lemma fs_node_inputs: "fs_node (w\<lparr>inputs := ins\<rparr>) p = fs_node w p"
  by (simp add: fs_node_def fs_lookup_inputs)

lemma fs_read_inputs: "fs_read (w\<lparr>inputs := ins\<rparr>) p = fs_read w p"
  by (simp add: fs_read_def fs_lookup_inputs)

lemma readFileSync_inputs: "readFileSync (w\<lparr>inputs := ins\<rparr>) p = readFileSync w p"
  by (simp add: readFileSync_def fs_read_inputs)

lemma existsSync_inputs: "existsSync (w\<lparr>inputs := ins\<rparr>) p = existsSync w p"
  by (simp add: existsSync_def fs_node_inputs)

lemma compile_inputs: "compile (w\<lparr>inputs := ins\<rparr>) a s = compile w a s"
  by (simp add: compile_def)

lemma extractSchemaFromJson_inputs:
  "extractSchemaFromJson (w\<lparr>inputs := ins\<rparr>) c f = extractSchemaFromJson w c f"
  by (simp add: extractSchemaFromJson_def Let_def
      cong: sum.case_cong json.case_cong option.case_cong if_cong)

lemma loadSchema_inputs: "loadSchema (w\<lparr>inputs := ins\<rparr>) p = loadSchema w p"
  by (simp add: loadSchema_def readFileSync_inputs)

lemma validateJsonSyntax_inputs:
  "validateJsonSyntax (w\<lparr>inputs := ins\<rparr>) f = validateJsonSyntax w f"
  by (simp add: validateJsonSyntax_def readFileSync_inputs)

lemma validateJsonSchema_inputs:
  "validateJsonSchema (w\<lparr>inputs := ins\<rparr>) f v = validateJsonSchema w f v"
  by (simp add: validateJsonSchema_def readFileSync_inputs)

lemma findJsonFiles_inputs: "findJsonFiles (w\<lparr>inputs := ins\<rparr>) folder = findJsonFiles w folder"
  by (simp add: findJsonFiles_def)

lemmas other_inputs = readFileSync_inputs existsSync_inputs compile_inputs
  extractSchemaFromJson_inputs loadSchema_inputs validateJsonSyntax_inputs
  validateJsonSchema_inputs findJsonFiles_inputs

lemma run_file_inputs: "run_file (w\<lparr>inputs := ins\<rparr>) g f = run_file w g f"
  by (simp add: run_file_def run_fileValidate_def other_inputs Let_def
      cong: option.case_cong if_cong)

lemma run_loop_inputs: "run_loop (w\<lparr>inputs := ins\<rparr>) g files = run_loop w g files"
  by (induction files) (simp_all add: run_file_inputs)

lemma run_globalValidate_inputs:
  "run_globalValidate (w\<lparr>inputs := ins\<rparr>) p = run_globalValidate w p"
  by (simp add: run_globalValidate_def other_inputs)

text \<open>
  A run reads the inputs \<open>folder\<close> and \<open>schema\<close> and no other: setting any other input
  changes neither its result nor its trace.
\<close>

lemma run_reads_folder_and_schema_only:
  assumes "k \<noteq> ''folder''" and "k \<noteq> ''schema''"
  shows "run (w\<lparr>inputs := (k, v) # inputs w\<rparr>) = run w"
proof -
  have "getInput (w\<lparr>inputs := (k, v) # inputs w\<rparr>) ''folder'' = getInput w ''folder''"
    and "getInput (w\<lparr>inputs := (k, v) # inputs w\<rparr>) ''schema'' = getInput w ''schema''"
    using assms by (simp_all add: getInput_def)
  then show ?thesis
    by (simp add: run_def run_loop_inputs run_globalValidate_inputs other_inputs Let_def
        cong: if_cong)
qed

end
